theory Spec2Isabelle
  imports Complex_Main
begin

section \<open>YoSmart API client: token lifecycle and request dispatcher\<close>

text \<open>
  A shallow embedding of \<^verbatim>\<open>docs/yosmart-api/yosmart_client.py\<close>: the class
  \<^verbatim>\<open>YoSmartAPIClient\<close> (\<^verbatim>\<open>__init__\<close>, \<^verbatim>\<open>authenticate\<close>,
  \<^verbatim>\<open>refresh_access_token\<close>, \<^verbatim>\<open>_ensure_valid_token\<close>, \<^verbatim>\<open>_call_api\<close>) and the module
  function \<^verbatim>\<open>create_client\<close>. The object is a record that every method takes and returns;
  the network, the clock and the process environment are a second record, the world.
  Exceptions are values: a method that can raise returns \<open>exn + 'a\<close>.
\<close>

subsection \<open>Python values\<close>

text \<open>
  What \<^verbatim>\<open>response.json()\<close> can return. \<open>JNull\<close> is Python's \<^verbatim>\<open>None\<close>. A number
  without fraction or exponent is an \<^verbatim>\<open>int\<close>, any other a \<^verbatim>\<open>float\<close>; a finite float is
  kept as the rational it denotes. A dict is an association list in insertion order, its
  keys distinct.
\<close>

datatype pyfloat = Fin rat | PosInf | NegInf | NaN

datatype json =
    JNull
  | JBool bool
  | JInt int
  | JFloat pyfloat
  | JString string
  | JArray "json list"
  | JObject "(string \<times> json) list"

text \<open>Truth value testing, as \<^verbatim>\<open>not x\<close>, \<^verbatim>\<open>if x:\<close> and \<^verbatim>\<open>x or y\<close> apply it.\<close>

fun truthy :: "json \<Rightarrow> bool" where
  "truthy JNull = False"
| "truthy (JBool b) = b"
| "truthy (JInt n) = (n \<noteq> 0)"
| "truthy (JFloat f) = (f \<noteq> Fin 0)"
| "truthy (JString s) = (s \<noteq> [])"
| "truthy (JArray xs) = (xs \<noteq> [])"
| "truthy (JObject kvs) = (kvs \<noteq> [])"

text \<open>\<^verbatim>\<open>d.get(k)\<close> and \<^verbatim>\<open>d.get(k, default)\<close> on a dict.\<close>

definition dict_get :: "(string \<times> json) list \<Rightarrow> string \<Rightarrow> json" where
  "dict_get d k = (case map_of d k of None \<Rightarrow> JNull | Some v \<Rightarrow> v)"

definition dict_get_default :: "(string \<times> json) list \<Rightarrow> string \<Rightarrow> json \<Rightarrow> json" where
  "dict_get_default d k dflt = (case map_of d k of None \<Rightarrow> dflt | Some v \<Rightarrow> v)"

fun type_name :: "json \<Rightarrow> string" where
  "type_name JNull = ''NoneType''"
| "type_name (JBool b) = ''bool''"
| "type_name (JInt n) = ''int''"
| "type_name (JFloat f) = ''float''"
| "type_name (JString s) = ''str''"
| "type_name (JArray xs) = ''list''"
| "type_name (JObject kvs) = ''dict''"

text \<open>\<^verbatim>\<open>str(n)\<close> for an \<^verbatim>\<open>int\<close>: its decimal digits, with a sign when negative.\<close>

definition digit_char :: "nat \<Rightarrow> char" where
  "digit_char d = ''0123456789'' ! d"

fun str_nat :: "nat \<Rightarrow> string" where
  "str_nat n = (if n < 10 then [digit_char n] else str_nat (n div 10) @ [digit_char (n mod 10)])"

declare str_nat.simps [simp del]

definition str_int :: "int \<Rightarrow> string" where
  "str_int i = (if i < 0 then CHR ''-'' # str_nat (nat (- i)) else str_nat (nat i))"

subsection \<open>Exceptions\<close>

text \<open>
  The subclasses of \<^verbatim>\<open>Exception\<close> that the modelled code meets, each with the message
  \<^verbatim>\<open>str(e)\<close> returns. \<^verbatim>\<open>except Exception\<close> catches every one of them.
\<close>

datatype exn_class =
    ConnectionError
  | Timeout
  | JSONDecodeError
  | AttributeError
  | TypeError
  | ValueError
  | OverflowError

datatype exn = Exn exn_class string

fun str_exn :: "exn \<Rightarrow> string" where
  "str_exn (Exn c msg) = msg"

subsection \<open>datetime and timedelta\<close>

text \<open>
  A \<^verbatim>\<open>datetime\<close> is its number of microseconds since \<^verbatim>\<open>datetime.min\<close>
  (0001-01-01 00:00:00), at most \<open>datetime_max\<close> (9999-12-31 23:59:59.999999).
  A \<^verbatim>\<open>timedelta\<close> is a signed number of microseconds whose day count has magnitude at
  most 999999999. Arithmetic that leaves either range raises \<^verbatim>\<open>OverflowError\<close>.
\<close>

definition day_us :: int where
  "day_us = 86400000000"

definition datetime_max :: int where
  "datetime_max = 3652059 * day_us - 1"

definition timedelta_us :: "int \<Rightarrow> exn + int" where
  "timedelta_us u =
     (if - 999999999 \<le> u div day_us \<and> u div day_us \<le> 999999999 then Inr u
      else Inl (Exn OverflowError ''days must have magnitude <= 999999999''))"

definition round_half_even :: "rat \<Rightarrow> int" where
  "round_half_even q =
     (let f = \<lfloor>q\<rfloor>; r = q - of_int f
      in if r < 1 / 2 then f else if 1 / 2 < r then f + 1 else if even f then f else f + 1)"

text \<open>
  Arithmetic on floats is arithmetic on doubles: the exact result, rounded to the nearest
  double, ties to even. A double has 53 significant bits and no exponent below -1074.
  Results of magnitude \<open>2 ^ 1024\<close> and more, which round to infinity, do not arise where
  \<open>round_double\<close> is used here. \<open>bit_length\<close> is \<^verbatim>\<open>int.bit_length\<close>, and \<open>floor_log2 q\<close>
  is the integer part of the binary logarithm of a positive \<open>q\<close>.
\<close>

fun bit_length :: "nat \<Rightarrow> nat" where
  "bit_length n = (if n = 0 then 0 else Suc (bit_length (n div 2)))"

declare bit_length.simps [simp del]

definition floor_log2 :: "rat \<Rightarrow> int" where
  "floor_log2 q =
     (if 1 \<le> q then int (bit_length (nat \<lfloor>q\<rfloor>)) - 1
      else - int (bit_length (nat (\<lceil>1 / q\<rceil> - 1))))"

definition round_double :: "rat \<Rightarrow> rat" where
  "round_double q =
     (if q = 0 then 0
      else let e = max (floor_log2 \<bar>q\<bar> - 52) (- 1074)
           in if 0 \<le> e then of_int (round_half_even (q / 2 ^ nat e) * 2 ^ nat e)
              else of_int (round_half_even (q * 2 ^ nat (- e))) / 2 ^ nat (- e))"

text \<open>\<^verbatim>\<open>int(x)\<close> and \<^verbatim>\<open>modf\<close> truncate towards zero.\<close>

definition trunc :: "rat \<Rightarrow> int" where
  "trunc q = (if 0 \<le> q then \<lfloor>q\<rfloor> else \<lceil>q\<rceil>)"

text \<open>
  \<^verbatim>\<open>timedelta(seconds=x)\<close>. A \<^verbatim>\<open>bool\<close> is an \<^verbatim>\<open>int\<close>. A float is split into
  its integer and fractional parts; the fractional part times a million is a product of
  doubles, and the sum of both parts in microseconds is rounded to the nearest integer,
  ties to even. Anything else is not a number.
\<close>

fun timedelta_seconds :: "json \<Rightarrow> exn + int" where
  "timedelta_seconds (JInt n) = timedelta_us (n * 1000000)"
| "timedelta_seconds (JBool b) = timedelta_us (if b then 1000000 else 0)"
| "timedelta_seconds (JFloat (Fin q)) =
     timedelta_us (round_half_even
       (of_int (trunc q * 1000000) + round_double (1000000 * (q - of_int (trunc q)))))"
| "timedelta_seconds (JFloat NaN) = Inl (Exn ValueError ''cannot convert float NaN to integer'')"
| "timedelta_seconds (JFloat f) = Inl (Exn OverflowError ''cannot convert float infinity to integer'')"
| "timedelta_seconds x =
     Inl (Exn TypeError (''unsupported type for timedelta seconds component: '' @ type_name x))"

definition five_minutes :: int where
  "five_minutes = 300000000"

text \<open>\<^verbatim>\<open>t + d\<close> and \<^verbatim>\<open>t - d\<close> for a datetime \<open>t\<close> and a timedelta \<open>d\<close>.\<close>

definition datetime_add :: "nat \<Rightarrow> int \<Rightarrow> exn + nat" where
  "datetime_add t d =
     (let r = int t + d
      in if 0 \<le> r \<and> r \<le> datetime_max then Inr (nat r)
         else Inl (Exn OverflowError ''date value out of range''))"

definition datetime_sub :: "nat \<Rightarrow> int \<Rightarrow> exn + nat" where
  "datetime_sub t d =
     (let r = int t - d
      in if 0 \<le> r \<and> r \<le> datetime_max then Inr (nat r)
         else Inl (Exn OverflowError ''date value out of range''))"

text \<open>
  \<^verbatim>\<open>t.timestamp()\<close> for a naive datetime, the local time read as UTC: the seconds since
  1970-01-01 as a double. The search for the local offset looks one day back, and raises
  \<^verbatim>\<open>ValueError\<close> when that day is before \<^verbatim>\<open>datetime.min\<close>. The whole seconds and the
  microseconds over a million are added as doubles.
\<close>

definition epoch_seconds :: int where
  "epoch_seconds = 719162 * 86400"

definition timestamp :: "nat \<Rightarrow> exn + rat" where
  "timestamp t =
     (if int t < day_us then Inl (Exn ValueError ''year 0 is out of range'')
      else Inr (round_double (of_int (int t div 1000000 - epoch_seconds) +
                              round_double (of_int (int t mod 1000000) / 1000000))))"

text \<open>\<^verbatim>\<open>int(t.timestamp() * 1000)\<close>: a product of doubles, truncated.\<close>

definition timestamp_ms :: "nat \<Rightarrow> exn + int" where
  "timestamp_ms t =
     (case timestamp t of
        Inl e \<Rightarrow> Inl e
      | Inr f \<Rightarrow> Inr (trunc (round_double (f * 1000))))"

subsection \<open>The world: network, clock, environment\<close>

text \<open>
  A request as \<^verbatim>\<open>requests.post\<close> receives it: \<^verbatim>\<open>data=\<close> is a form, \<^verbatim>\<open>json=\<close> a JSON
  body. The header \<^verbatim>\<open>f'Bearer {x}'\<close> is kept as \<open>Bearer x\<close>.
\<close>

datatype header_value = Plain string | Bearer json

datatype payload = Form_data "(string \<times> json) list" | Json_body json

record request =
  req_url :: string
  req_payload :: payload
  req_headers :: "(string \<times> header_value) list"
  req_timeout :: "nat option"

text \<open>
  A response carries its status and what \<^verbatim>\<open>response.json()\<close> does on its body: return
  the parsed value, or raise. A call of \<^verbatim>\<open>requests.post\<close> raises or returns a response,
  after some time has passed on the clock.
\<close>

record response =
  status_code :: int
  json_result :: "exn + json"

datatype outcome = Raises exn | Returns response

record reply =
  took :: nat
  outcome :: outcome

text \<open>
  The trace records what happened, in order: each POST with its request, and each entry
  into \<^verbatim>\<open>authenticate\<close> and \<^verbatim>\<open>refresh_access_token\<close>. The entries are observations only;
  no operation reads the trace.
\<close>

datatype event = Call_authenticate | Call_refresh_access_token | Http_post request

text \<open>
  The world holds the clock, the environment variables, and the replies to come, in
  order: those of the token endpoint, which answers the requests sent to \<open>TOKEN_URL\<close>,
  and those of the other endpoints, which answer the rest. A server with no reply left is
  unreachable.
\<close>

record world =
  clock :: nat
  token_replies :: "reply list"
  api_replies :: "reply list"
  environ :: "(string \<times> string) list"
  trace :: "event list"

definition TOKEN_URL :: string where
  "TOKEN_URL = ''https://api.yosmart.com/open/yolink/token''"

definition API_URL :: string where
  "API_URL = ''https://api.yosmart.com/open/yolink/v2/api''"

definition PRODUCTION_URL :: string where
  "PRODUCTION_URL = ''https://api.yosmart.com/open/production/v2/api''"

definition unreachable :: exn where
  "unreachable = Exn ConnectionError ''Failed to establish a new connection''"

fun deliver :: "outcome \<Rightarrow> exn + response" where
  "deliver (Raises e) = Inl e"
| "deliver (Returns r) = Inr r"

definition requests_post :: "request \<Rightarrow> world \<Rightarrow> (exn + response) \<times> world" where
  "requests_post req w =
     (let w' = w\<lparr>trace := trace w @ [Http_post req]\<rparr>
      in if req_url req = TOKEN_URL then
           (case token_replies w of
              [] \<Rightarrow> (Inl unreachable, w')
            | r # rs \<Rightarrow> (deliver (outcome r), w'\<lparr>clock := clock w + took r, token_replies := rs\<rparr>))
         else
           (case api_replies w of
              [] \<Rightarrow> (Inl unreachable, w')
            | r # rs \<Rightarrow> (deliver (outcome r), w'\<lparr>clock := clock w + took r, api_replies := rs\<rparr>)))"

definition getenv :: "world \<Rightarrow> string \<Rightarrow> json" where
  "getenv w k = (case map_of (environ w) k of None \<Rightarrow> JNull | Some v \<Rightarrow> JString v)"

subsection \<open>The client object\<close>

record client =
  uaid :: json
  secret_key :: json
  auto_refresh :: bool
  access_token :: json
  refresh_token :: json
  token_expires_at :: "nat option"
  home_id :: json
  devices :: "json list"

text \<open>\<^verbatim>\<open>__init__\<close>.\<close>

definition init_client :: "json \<Rightarrow> json \<Rightarrow> bool \<Rightarrow> client" where
  "init_client u k ar =
     \<lparr>uaid = u, secret_key = k, auto_refresh = ar,
      access_token = JNull, refresh_token = JNull, token_expires_at = None,
      home_id = JNull, devices = []\<rparr>"

text \<open>\<^verbatim>\<open>data.get\<close>: the bound method of a dict; any other JSON value has no such attribute.\<close>

fun dict_of :: "json \<Rightarrow> exn + (string \<times> json) list" where
  "dict_of (JObject d) = Inr d"
| "dict_of x = Inl (Exn AttributeError (type_name x @ '' object has no attribute get''))"

subsection \<open>authenticate\<close>

definition auth_request :: "client \<Rightarrow> request" where
  "auth_request s =
     \<lparr>req_url = TOKEN_URL,
      req_payload = Form_data
        [(''grant_type'', JString ''client_credentials''),
         (''client_id'', uaid s),
         (''client_secret'', secret_key s)],
      req_headers = [], req_timeout = None\<rparr>"

text \<open>
  The body of the \<^verbatim>\<open>try\<close>. The fields are assigned one after the other, so an exception
  leaves the object with the assignments made before it.
\<close>

definition authenticate_try :: "client \<Rightarrow> world \<Rightarrow> (exn + bool) \<times> client \<times> world" where
  "authenticate_try s w =
     (case requests_post (auth_request s) w of
        (Inl e, w1) \<Rightarrow> (Inl e, s, w1)
      | (Inr response, w1) \<Rightarrow>
          if status_code response = 200 then
            (case json_result response of
               Inl e \<Rightarrow> (Inl e, s, w1)
             | Inr data \<Rightarrow>
                 (case dict_of data of
                    Inl e \<Rightarrow> (Inl e, s, w1)
                  | Inr d \<Rightarrow>
                      (let s1 = s\<lparr>access_token := dict_get d ''access_token''\<rparr>;
                           s2 = s1\<lparr>refresh_token := dict_get d ''refresh_token''\<rparr>;
                           expires_in = dict_get_default d ''expires_in'' (JInt 3600)
                       in case timedelta_seconds expires_in of
                            Inl e \<Rightarrow> (Inl e, s2, w1)
                          | Inr td \<Rightarrow>
                              (case datetime_add (clock w1) td of
                                 Inl e \<Rightarrow> (Inl e, s2, w1)
                               | Inr t \<Rightarrow> (Inr True, s2\<lparr>token_expires_at := Some t\<rparr>, w1)))))
          else (Inr False, s, w1))"

text \<open>\<^verbatim>\<open>except Exception\<close>: log and return \<^verbatim>\<open>False\<close>.\<close>

fun caught :: "(exn + bool) \<times> client \<times> world \<Rightarrow> bool \<times> client \<times> world" where
  "caught (Inl e, s, w) = (False, s, w)"
| "caught (Inr b, s, w) = (b, s, w)"

definition authenticate :: "client \<Rightarrow> world \<Rightarrow> bool \<times> client \<times> world" where
  "authenticate s w = caught (authenticate_try s (w\<lparr>trace := trace w @ [Call_authenticate]\<rparr>))"

subsection \<open>refresh\_access\_token\<close>

definition refresh_request :: "client \<Rightarrow> request" where
  "refresh_request s =
     \<lparr>req_url = TOKEN_URL,
      req_payload = Form_data
        [(''grant_type'', JString ''refresh_token''),
         (''client_id'', uaid s),
         (''refresh_token'', refresh_token s)],
      req_headers = [], req_timeout = None\<rparr>"

definition refresh_try :: "client \<Rightarrow> world \<Rightarrow> (exn + bool) \<times> client \<times> world" where
  "refresh_try s w =
     (case requests_post (refresh_request s) w of
        (Inl e, w1) \<Rightarrow> (Inl e, s, w1)
      | (Inr response, w1) \<Rightarrow>
          if status_code response = 200 then
            (case json_result response of
               Inl e \<Rightarrow> (Inl e, s, w1)
             | Inr data \<Rightarrow>
                 (case dict_of data of
                    Inl e \<Rightarrow> (Inl e, s, w1)
                  | Inr d \<Rightarrow>
                      (let s1 = s\<lparr>access_token := dict_get d ''access_token''\<rparr>;
                           expires_in = dict_get_default d ''expires_in'' (JInt 3600)
                       in case timedelta_seconds expires_in of
                            Inl e \<Rightarrow> (Inl e, s1, w1)
                          | Inr td \<Rightarrow>
                              (case datetime_add (clock w1) td of
                                 Inl e \<Rightarrow> (Inl e, s1, w1)
                               | Inr t \<Rightarrow> (Inr True, s1\<lparr>token_expires_at := Some t\<rparr>, w1)))))
          else (Inr False, s, w1))"

definition refresh_access_token :: "client \<Rightarrow> world \<Rightarrow> bool \<times> client \<times> world" where
  "refresh_access_token s w =
     (let w0 = w\<lparr>trace := trace w @ [Call_refresh_access_token]\<rparr>
      in if \<not> truthy (refresh_token s) then authenticate s w0
         else caught (refresh_try s w0))"

subsection \<open>\_ensure\_valid\_token\<close>

text \<open>
  Nothing here is inside a \<^verbatim>\<open>try\<close>: the subtraction
  \<^verbatim>\<open>self.token_expires_at - timedelta(minutes=5)\<close> raises when the expiry is less than five
  minutes after \<^verbatim>\<open>datetime.min\<close>, and the exception leaves the method.
\<close>

definition ensure_valid_token :: "client \<Rightarrow> world \<Rightarrow> (exn + bool) \<times> client \<times> world" where
  "ensure_valid_token s w =
     (if \<not> truthy (access_token s) then
        (case authenticate s w of (b, s', w') \<Rightarrow> (Inr b, s', w'))
      else
        (case token_expires_at s of
           Some t \<Rightarrow>
             if auto_refresh s then
               (case datetime_sub t five_minutes of
                  Inl e \<Rightarrow> (Inl e, s, w)
                | Inr limit \<Rightarrow>
                    if clock w > limit then
                      (case refresh_access_token s w of (b, s', w') \<Rightarrow> (Inr b, s', w'))
                    else (Inr True, s, w))
             else (Inr True, s, w)
         | None \<Rightarrow> (Inr True, s, w)))"

subsection \<open>\_call\_api\<close>

definition envelope :: "string \<Rightarrow> int \<Rightarrow> json \<Rightarrow> (string \<times> json) list" where
  "envelope method time params =
     (let payload = [(''method'', JString method), (''time'', JInt time)]
      in if truthy params then payload @ [(''params'', params)] else payload)"

definition api_request :: "client \<Rightarrow> int \<Rightarrow> string \<Rightarrow> json \<Rightarrow> string option \<Rightarrow> request" where
  "api_request s time method params url =
     \<lparr>req_url = (case url of None \<Rightarrow> API_URL | Some u \<Rightarrow> u),
      req_payload = Json_body (JObject (envelope method time params)),
      req_headers =
        [(''Content-Type'', Plain ''application/json''),
         (''Authorization'', Bearer (access_token s))],
      req_timeout = Some 10\<rparr>"

definition no_token_result :: json where
  "no_token_result =
     JObject [(''code'', JString ''999999''), (''desc'', JString ''Failed to obtain valid token'')]"

definition error_result :: "exn \<Rightarrow> json" where
  "error_result e = JObject [(''code'', JString ''999999''), (''desc'', JString (str_exn e))]"

definition http_error_result :: "int \<Rightarrow> json" where
  "http_error_result status =
     JObject [(''code'', JString (str_int status)),
              (''desc'', JString (''HTTP '' @ str_int status @ '' error''))]"

text \<open>
  The token check and the construction of the payload come before the \<^verbatim>\<open>try\<close>: an
  exception of either leaves the method.
\<close>

definition call_api ::
  "client \<Rightarrow> world \<Rightarrow> string \<Rightarrow> json \<Rightarrow> string option \<Rightarrow> (exn + json) \<times> client \<times> world" where
  "call_api s w method params url =
     (case ensure_valid_token s w of
        (Inl e, s1, w1) \<Rightarrow> (Inl e, s1, w1)
      | (Inr ok, s1, w1) \<Rightarrow>
          if \<not> ok then (Inr no_token_result, s1, w1)
          else
            (case timestamp_ms (clock w1) of
               Inl e \<Rightarrow> (Inl e, s1, w1)
             | Inr time \<Rightarrow>
                 (case requests_post (api_request s1 time method params url) w1 of
                    (Inl e, w2) \<Rightarrow> (Inr (error_result e), s1, w2)
                  | (Inr response, w2) \<Rightarrow>
                      if status_code response = 200 then
                        (case json_result response of
                           Inl e \<Rightarrow> (Inr (error_result e), s1, w2)
                         | Inr body \<Rightarrow> (Inr body, s1, w2))
                      else (Inr (http_error_result (status_code response)), s1, w2))))"

subsection \<open>create\_client\<close>

text \<open>\<^verbatim>\<open>x or y\<close>: \<open>x\<close> when it is truthy, else \<open>y\<close>.\<close>

definition py_or :: "json \<Rightarrow> json \<Rightarrow> json" where
  "py_or x y = (if truthy x then x else y)"

definition create_client :: "json \<Rightarrow> json \<Rightarrow> world \<Rightarrow> (exn + client) \<times> world" where
  "create_client uaid_arg secret_key_arg w =
     (let u = py_or uaid_arg (getenv w ''YOSMART_UAID'');
          k = py_or secret_key_arg (getenv w ''YOSMART_SECRET'')
      in if \<not> truthy u \<or> \<not> truthy k then
           (Inl (Exn ValueError ''UAID and secret_key must be provided or set as environment variables''), w)
         else (Inr (init_client u k True), w))"

subsection \<open>Sequences of operations\<close>

text \<open>
  The operations a caller can apply to a client, and their effect on the object and the
  world when the result is dropped. An exception that leaves \<^verbatim>\<open>_ensure_valid_token\<close> or
  \<^verbatim>\<open>_call_api\<close> leaves the object as it was when it was raised.
\<close>

datatype operation =
    Authenticate
  | Refresh_access_token
  | Ensure_valid_token
  | Call_api string json "string option"

fun perform :: "operation \<Rightarrow> client \<times> world \<Rightarrow> client \<times> world" where
  "perform Authenticate (s, w) = snd (authenticate s w)"
| "perform Refresh_access_token (s, w) = snd (refresh_access_token s w)"
| "perform Ensure_valid_token (s, w) = snd (ensure_valid_token s w)"
| "perform (Call_api method params url) (s, w) = snd (call_api s w method params url)"

definition run :: "operation list \<Rightarrow> client \<times> world \<Rightarrow> client \<times> world" where
  "run ops cw = fold perform ops cw"

subsection \<open>Properties named by the specification\<close>




fun has_data :: "json \<Rightarrow> bool" where
  "has_data (JObject d) = (map_of d ''data'' \<noteq> None)"
| "has_data x = False"

text \<open>The invariant of the token state: no access token, no expiry.\<close>

definition token_inv :: "client \<Rightarrow> bool" where
  "token_inv s = (access_token s = JNull \<longrightarrow> token_expires_at s = None)"

definition token_fields :: "client \<Rightarrow> json \<times> json \<times> nat option" where
  "token_fields s = (access_token s, refresh_token s, token_expires_at s)"

text \<open>A stored expiry is a \<^verbatim>\<open>datetime\<close>: it does not exceed \<^verbatim>\<open>datetime.max\<close>.\<close>

definition is_datetime :: "nat \<Rightarrow> bool" where
  "is_datetime t = (int t \<le> datetime_max)"

definition expiry_is_datetime :: "client \<Rightarrow> bool" where
  "expiry_is_datetime s = (case token_expires_at s of None \<Rightarrow> True | Some t \<Rightarrow> is_datetime t)"


text \<open>
  What a reply of the token endpoint offers as \<^verbatim>\<open>access_token\<close>: the value
  \<^verbatim>\<open>data.get('access_token')\<close> of a 200 reply whose body is a JSON object, and nothing for
  any other reply.
\<close>

definition offered_access_token :: "reply \<Rightarrow> json option" where
  "offered_access_token r =
     (case deliver (outcome r) of
        Inl e \<Rightarrow> None
      | Inr response \<Rightarrow>
          if status_code response = 200 then
            (case json_result response of
               Inl e \<Rightarrow> None
             | Inr data \<Rightarrow>
                 (case dict_of data of Inl e \<Rightarrow> None | Inr d \<Rightarrow> Some (dict_get d ''access_token'')))
          else None)"

definition offers_token :: "reply \<Rightarrow> bool" where
  "offers_token r = (offered_access_token r \<noteq> Some JNull)"

text \<open>The next reply of the token endpoint is a 200 with a JSON object as its body.\<close>

definition next_reply_is_object :: "world \<Rightarrow> bool" where
  "next_reply_is_object w =
     (case token_replies w of [] \<Rightarrow> False | r # rs \<Rightarrow> offered_access_token r \<noteq> None)"

subsection \<open>Concrete clients and worlds\<close>

text \<open>The clock at 2026-01-01 00:00:00.\<close>

definition now0 :: nat where
  "now0 = 63902822400000000"

definition json_reply :: "int \<Rightarrow> json \<Rightarrow> reply" where
  "json_reply status body =
     \<lparr>took = 250000, outcome = Returns \<lparr>status_code = status, json_result = Inr body\<rparr>\<rparr>"

definition world0 :: "reply list \<Rightarrow> reply list \<Rightarrow> world" where
  "world0 ts as =
     \<lparr>clock = now0, token_replies = ts, api_replies = as, environ = [], trace = []\<rparr>"

definition fresh_client :: client where
  "fresh_client = init_client (JString ''ua_1'') (JString ''sec_1'') True"

text \<open>A client that holds the tokens \<^verbatim>\<open>tok0\<close> and \<^verbatim>\<open>ref0\<close>, expiring at \<open>t\<close>.\<close>

definition holder :: "nat \<Rightarrow> client" where
  "holder t =
     fresh_client\<lparr>access_token := JString ''tok0'', refresh_token := JString ''ref0'',
       token_expires_at := Some t\<rparr>"

definition grant :: json where
  "grant =
     JObject [(''access_token'', JString ''tok1''), (''refresh_token'', JString ''ref1''),
              (''expires_in'', JInt 3600)]"

section \<open>Doubles and time stamps\<close>

text \<open>
  An integer of magnitude below \<open>2 ^ 53\<close> is a double, so rounding leaves it as it is.
\<close>

lemma round_half_even_of_int: "round_half_even (of_int m) = m"
  by (simp add: round_half_even_def)

lemma bit_length_le: "n < 2 ^ k \<Longrightarrow> bit_length n \<le> k"
proof (induction k arbitrary: n)
  case 0
  then show ?case by (simp add: bit_length.simps)
next
  case (Suc k)
  show ?case
  proof (cases "n = 0")
    case True
    then show ?thesis by (simp add: bit_length.simps)
  next
    case False
    from Suc.prems have "n div 2 < 2 ^ k" by simp
    then have "bit_length (n div 2) \<le> k" by (rule Suc.IH)
    with False show ?thesis by (subst bit_length.simps) simp
  qed
qed

lemma round_double_of_int:
  assumes "\<bar>n\<bar> < 2 ^ 53"
  shows "round_double (of_int n) = of_int n"
proof (cases "n = 0")
  case True
  then show ?thesis by (simp add: round_double_def)
next
  case False
  then have one: "(1::rat) \<le> \<bar>of_int n\<bar>"
    by (metis abs_ge_zero of_int_abs of_int_1_le_iff zero_less_abs_iff int_one_le_iff_zero_less)
  have "nat \<bar>n\<bar> < 2 ^ 53"
    using assms by (simp add: nat_less_iff)
  then have "bit_length (nat \<bar>n\<bar>) \<le> 53"
    by (rule bit_length_le)
  then have fl: "floor_log2 \<bar>of_int n\<bar> - 52 \<le> 0"
    using one by (simp add: floor_log2_def flip: of_int_abs)
  define e where "e = max (floor_log2 \<bar>of_int n :: rat\<bar> - 52) (- 1074)"
  from fl have e: "e \<le> 0"
    by (simp add: e_def)
  have "(of_int n :: rat) * 2 ^ nat (- e) = of_int (n * 2 ^ nat (- e))"
    by simp
  then have r: "round_half_even (of_int n * 2 ^ nat (- e)) = n * 2 ^ nat (- e)"
    by (simp only: round_half_even_of_int)
  show ?thesis
  proof (cases "e = 0")
    case True
    with False r show ?thesis
      by (simp add: round_double_def Let_def flip: e_def)
  next
    case neg: False
    with e have "\<not> 0 \<le> e" by simp
    with False r show ?thesis
      by (simp add: round_double_def Let_def flip: e_def)
  qed
qed

lemma timestamp_ms_now0: "timestamp_ms now0 = Inr 1767225600000"
proof -
  have a: "round_double 1767225600 = 1767225600"
    using round_double_of_int [of 1767225600] by simp
  have b: "round_double 1767225600000 = 1767225600000"
    using round_double_of_int [of 1767225600000] by simp
  have z: "round_double 0 = 0"
    by (simp add: round_double_def)
  show ?thesis
    by (simp add: timestamp_ms_def timestamp_def now0_def day_us_def epoch_seconds_def a b z
        trunc_def)
qed

lemma timestamp_ms_returns:
  "day_us \<le> int t \<Longrightarrow> \<exists>time. timestamp_ms t = Inr time"
  by (simp add: timestamp_ms_def timestamp_def)


text \<open>
  Two values where the double arithmetic shows. The double nearest to 2.5e-06 is a little
  above it; its product with a million is the double 2.5, a tie, so the lifetime is 2
  microseconds, not 3. And at 2039-01-01 00:00:00.002 the time stamp is one millisecond
  short of the exact one.
\<close>

lemma floor_rat_numeral:
  "\<lfloor>numeral a / numeral b :: rat\<rfloor> = numeral a div numeral b"
  using floor_divide_of_int_eq [of "numeral a" "numeral b", where ?'a = rat] by simp

lemma ceiling_rat_numeral:
  "\<lceil>numeral a / numeral b :: rat\<rceil> = - ((- numeral a) div numeral b)"
  using floor_divide_of_int_eq [of "- numeral a" "numeral b", where ?'a = rat]
  by (simp add: ceiling_def)

lemma bit_length_gt: "2 ^ k \<le> n \<Longrightarrow> k < bit_length n"
proof (induction k arbitrary: n)
  case 0
  then show ?case by (subst bit_length.simps) simp
next
  case (Suc k)
  then have "2 ^ k \<le> n div 2" by simp
  then have "k < bit_length (n div 2)" by (rule Suc.IH)
  moreover have "0 < (2::nat) ^ Suc k" by simp
  from this Suc.prems have "0 < n" by (rule less_le_trans)
  ultimately show ?case by (subst bit_length.simps) simp
qed

lemma bit_length_eq:
  assumes "2 ^ k \<le> n" and "n < 2 ^ Suc k"
  shows "bit_length n = Suc k"
  using bit_length_gt [OF assms(1)] bit_length_le [OF assms(2)] by simp

lemma round_double_scaled:
  assumes "q \<noteq> 0" and "floor_log2 \<bar>q\<bar> = l" and "- 1022 \<le> l" and "l < 52"
  shows "round_double q = of_int (round_half_even (q * 2 ^ nat (52 - l))) / 2 ^ nat (52 - l)"
proof -
  have e: "max (floor_log2 \<bar>q\<bar> - 52) (- 1074) = l - 52"
    using assms by simp
  have n: "(0 \<le> l - 52) = False"
    using assms by simp
  have k: "- (l - 52) = 52 - l"
    by simp
  have z: "(q = 0) = False"
    using assms by simp
  show ?thesis
    unfolding round_double_def Let_def e
    by (simp only: z n if_False k)
qed

lemma rd_tie: "round_double (1000000 * (5902958103587057 / 2361183241434822606848)) = 5 / 2"
proof -
  let ?q = "1000000 * (5902958103587057 / 2361183241434822606848) :: rat"
  have b: "bit_length 2 = 2"
    using bit_length_eq [of 1 2] by simp
  have nz: "?q \<noteq> 0" by simp
  have f: "floor_log2 \<bar>?q\<bar> = 1"
    by (simp add: floor_log2_def floor_rat_numeral b)
  have m: "round_half_even (?q * 2 ^ nat (52 - 1)) = 5629499534213120"
    by (simp add: round_half_even_def floor_rat_numeral)
  have "round_double ?q = of_int (round_half_even (?q * 2 ^ nat (52 - 1))) / 2 ^ nat (52 - 1)"
    using nz f by (rule round_double_scaled) simp_all
  also have "\<dots> = 5 / 2"
    unfolding m by simp
  finally show ?thesis .
qed

lemma timedelta_seconds_double_tie:
  "timedelta_seconds (JFloat (Fin (5902958103587057 / 2361183241434822606848))) = Inr 2"
proof -
  have t: "trunc (5902958103587057 / 2361183241434822606848) = 0"
    by (simp add: trunc_def floor_rat_numeral)
  have h: "round_half_even (5 / 2) = 2"
    by (simp add: round_half_even_def floor_rat_numeral)
  have u: "timedelta_us 2 = Inr 2"
    by (simp add: timedelta_us_def day_us_def)
  show ?thesis
    by (simp only: timedelta_seconds.simps t mult_zero_left of_int_0 add_0 diff_zero rd_tie h u)
qed


lemma timestamp_ms_double: "timestamp_ms 64313049600002000 = Inr 2177452800001"
proof -
  let ?a = "of_int 2000 / 1000000 :: rat"
  let ?A = "1152921504606847 / 576460752303423488 :: rat"
  let ?B = "2283224747214897 / 1048576 :: rat"
  let ?C = "8918846668808191 / 4096 :: rat"
  have b: "bit_length 499 = 9" "bit_length 2177452800 = 32" "bit_length 2177452800001 = 41"
    using bit_length_eq [of 8 499] bit_length_eq [of 31 2177452800]
      bit_length_eq [of 40 2177452800001] by simp_all
  have r1: "round_double ?a = ?A"
  proof -
    have f: "floor_log2 \<bar>?a\<bar> = - 9"
      by (simp add: floor_log2_def floor_rat_numeral ceiling_rat_numeral b)
    have m: "round_half_even (?a * 2 ^ nat (52 - - 9)) = 4611686018427388"
      by (simp add: round_half_even_def floor_rat_numeral)
    have "round_double ?a = of_int (round_half_even (?a * 2 ^ nat (52 - - 9))) / 2 ^ nat (52 - - 9)"
      using _ f by (rule round_double_scaled) simp_all
    also have "\<dots> = ?A"
      unfolding m by simp
    finally show ?thesis .
  qed
  have r2: "round_double (of_int 2177452800 + ?A) = ?B"
  proof -
    let ?q = "of_int 2177452800 + ?A"
    have f: "floor_log2 \<bar>?q\<bar> = 31"
      by (simp add: floor_log2_def floor_rat_numeral ceiling_rat_numeral b)
    have m: "round_half_even (?q * 2 ^ nat (52 - 31)) = 4566449494429794"
      by (simp add: round_half_even_def floor_rat_numeral)
    have "round_double ?q = of_int (round_half_even (?q * 2 ^ nat (52 - 31))) / 2 ^ nat (52 - 31)"
      using _ f by (rule round_double_scaled) simp_all
    also have "\<dots> = ?B"
      unfolding m by simp
    finally show ?thesis .
  qed
  have r3: "round_double (?B * 1000) = ?C"
  proof -
    let ?q = "?B * 1000"
    have f: "floor_log2 \<bar>?q\<bar> = 40"
      by (simp add: floor_log2_def floor_rat_numeral ceiling_rat_numeral b)
    have m: "round_half_even (?q * 2 ^ nat (52 - 40)) = 8918846668808191"
      by (simp add: round_half_even_def floor_rat_numeral)
    have "round_double ?q = of_int (round_half_even (?q * 2 ^ nat (52 - 40))) / 2 ^ nat (52 - 40)"
      using _ f by (rule round_double_scaled) simp_all
    also have "\<dots> = ?C"
      unfolding m by simp
    finally show ?thesis .
  qed
  have tr: "trunc ?C = 2177452800001"
    by (simp add: trunc_def floor_rat_numeral)
  have d: "int 64313049600002000 div 1000000 - epoch_seconds = 2177452800"
    "int 64313049600002000 mod 1000000 = 2000"
    "(int 64313049600002000 < day_us) = False"
    by (simp_all add: epoch_seconds_def day_us_def)
  have "timestamp 64313049600002000 = Inr ?B"
    by (simp only: timestamp_def d if_False r1 r2)
  then show ?thesis
    by (simp only: timestamp_ms_def sum.case r3 tr)
qed

lemma timestamp_ms_world0: "timestamp_ms (clock (world0 ts as)) = Inr 1767225600000"
  using timestamp_ms_now0 by (simp add: world0_def)







section \<open>What each operation adds to the trace\<close>

lemma requests_post_trace:
  "requests_post req w = (r, w') \<Longrightarrow> trace w' = trace w @ [Http_post req]"
  by (auto simp: requests_post_def Let_def split: if_splits list.splits)

lemma authenticate_try_trace:
  "authenticate_try s w = (r, s', w') \<Longrightarrow> trace w' = trace w @ [Http_post (auth_request s)]"
  unfolding authenticate_try_def
  by (auto simp: Let_def split: prod.splits sum.splits if_splits dest: requests_post_trace)

lemma authenticate_trace:
  "authenticate s w = (b, s', w') \<Longrightarrow>
     trace w' = trace w @ [Call_authenticate, Http_post (auth_request s)]"
  unfolding authenticate_def
  by (cases "authenticate_try s (w\<lparr>trace := trace w @ [Call_authenticate]\<rparr>)" rule: caught.cases)
     (auto dest: authenticate_try_trace)

lemma refresh_try_trace:
  "refresh_try s w = (r, s', w') \<Longrightarrow> trace w' = trace w @ [Http_post (refresh_request s)]"
  unfolding refresh_try_def
  by (auto simp: Let_def split: prod.splits sum.splits if_splits dest: requests_post_trace)

lemma refresh_access_token_trace:
  "refresh_access_token s w = (b, s', w') \<Longrightarrow>
     trace w' = trace w @
       (if truthy (refresh_token s) then [Call_refresh_access_token, Http_post (refresh_request s)]
        else [Call_refresh_access_token, Call_authenticate, Http_post (auth_request s)])"
  unfolding refresh_access_token_def Let_def
  apply (cases "truthy (refresh_token s)")
   apply (cases "refresh_try s (w\<lparr>trace := trace w @ [Call_refresh_access_token]\<rparr>)" rule: caught.cases)
    apply (auto dest: refresh_try_trace authenticate_trace)
  done

section \<open>Stored expiries are datetimes\<close>

text \<open>
  An expiry is stored only as the result of a datetime addition that did not overflow, so
  every expiry that a client built by \<^verbatim>\<open>__init__\<close> comes to hold is a datetime.
\<close>

lemma caught_cases:
  "caught x = (b, s', w') \<Longrightarrow> \<exists>r. x = (r, s', w')"
  by (cases x rule: caught.cases) auto

lemma datetime_add_is_datetime: "datetime_add t d = Inr r \<Longrightarrow> is_datetime r"
  by (auto simp: datetime_add_def is_datetime_def Let_def split: if_splits)

lemma authenticate_try_expiry:
  assumes "authenticate_try s w = (r, s', w')" and "expiry_is_datetime s"
  shows "expiry_is_datetime s'"
  using assms
  unfolding authenticate_try_def
  by (auto simp: Let_def expiry_is_datetime_def
      split: prod.splits sum.splits if_splits dest: datetime_add_is_datetime)

lemma refresh_try_expiry:
  assumes "refresh_try s w = (r, s', w')" and "expiry_is_datetime s"
  shows "expiry_is_datetime s'"
  using assms
  unfolding refresh_try_def
  by (auto simp: Let_def expiry_is_datetime_def
      split: prod.splits sum.splits if_splits dest: datetime_add_is_datetime)

lemma authenticate_expiry:
  assumes "authenticate s w = (b, s', w')" and "expiry_is_datetime s"
  shows "expiry_is_datetime s'"
proof -
  from assms(1) obtain r where
    "authenticate_try s (w\<lparr>trace := trace w @ [Call_authenticate]\<rparr>) = (r, s', w')"
    unfolding authenticate_def by (blast dest: caught_cases)
  from authenticate_try_expiry [OF this assms(2)] show ?thesis .
qed

lemma refresh_access_token_expiry:
  assumes "refresh_access_token s w = (b, s', w')" and "expiry_is_datetime s"
  shows "expiry_is_datetime s'"
proof (cases "truthy (refresh_token s)")
  case True
  with assms(1) obtain r where
    "refresh_try s (w\<lparr>trace := trace w @ [Call_refresh_access_token]\<rparr>) = (r, s', w')"
    unfolding refresh_access_token_def Let_def by (auto dest: caught_cases)
  from refresh_try_expiry [OF this assms(2)] show ?thesis .
next
  case False
  with assms(1) have
    "authenticate s (w\<lparr>trace := trace w @ [Call_refresh_access_token]\<rparr>) = (b, s', w')"
    unfolding refresh_access_token_def Let_def by simp
  from authenticate_expiry [OF this assms(2)] show ?thesis .
qed

lemma ensure_valid_token_expiry:
  assumes "ensure_valid_token s w = (r, s', w')" and "expiry_is_datetime s"
  shows "expiry_is_datetime s'"
  using assms
  unfolding ensure_valid_token_def
  by (auto split: if_splits option.splits sum.splits prod.splits
      dest: authenticate_expiry refresh_access_token_expiry)

lemma call_api_client:
  assumes "call_api s w method params url = (r, s', w')"
  shows "\<exists>r1 w1. ensure_valid_token s w = (r1, s', w1)"
  using assms
  unfolding call_api_def
  by (auto split: sum.splits if_splits prod.splits)

lemma perform_expiry:
  assumes "expiry_is_datetime (fst cw)"
  shows "expiry_is_datetime (fst (perform op cw))"
proof -
  obtain s w where cw: "cw = (s, w)"
    by (cases cw) auto
  show ?thesis
  proof (cases op)
    case Authenticate
    obtain b s' w' where "authenticate s w = (b, s', w')"
      by (cases "authenticate s w") auto
    with authenticate_expiry [OF this] assms cw Authenticate show ?thesis by simp
  next
    case Refresh_access_token
    obtain b s' w' where "refresh_access_token s w = (b, s', w')"
      by (cases "refresh_access_token s w") auto
    with refresh_access_token_expiry [OF this] assms cw Refresh_access_token show ?thesis by simp
  next
    case Ensure_valid_token
    obtain b s' w' where "ensure_valid_token s w = (b, s', w')"
      by (cases "ensure_valid_token s w") auto
    with ensure_valid_token_expiry [OF this] assms cw Ensure_valid_token show ?thesis by simp
  next
    case (Call_api m p u)
    obtain b s' w' where c: "call_api s w m p u = (b, s', w')"
      by (cases "call_api s w m p u") auto
    from call_api_client [OF c] obtain r1 w1 where "ensure_valid_token s w = (r1, s', w1)"
      by blast
    with ensure_valid_token_expiry [OF this] assms cw Call_api c show ?thesis by simp
  qed
qed

lemma stored_expiry_is_datetime:
  assumes "token_expires_at (fst (run ops (init_client u k ar, w))) = Some t"
  shows "is_datetime t"
proof -
  have "expiry_is_datetime (fst cw) \<Longrightarrow> expiry_is_datetime (fst (run ops cw))" for cw
    unfolding run_def
    by (induction ops arbitrary: cw) (simp_all add: perform_expiry)
  from this [of "(init_client u k ar, w)"] have "expiry_is_datetime (fst (run ops (init_client u k ar, w)))"
    by (simp add: expiry_is_datetime_def init_client_def)
  with assms show ?thesis
    by (simp add: expiry_is_datetime_def)
qed

section \<open>The policy gate \_ensure\_valid\_token\<close>

text \<open>
  C2. When no access token is held (\<^verbatim>\<open>not self.access_token\<close>: the field is \<^verbatim>\<open>None\<close>, or
  an empty value), \<^verbatim>\<open>_ensure_valid_token\<close> is one call of \<^verbatim>\<open>authenticate\<close>: it returns
  the boolean \<^verbatim>\<open>authenticate\<close> returns and leaves the object and the world as that call
  leaves them, and the trace grows by exactly one entry into \<^verbatim>\<open>authenticate\<close> and its one
  POST. Nothing is assumed of \<^verbatim>\<open>auto_refresh\<close> or of the stored expiry.
\<close>

theorem ensure_valid_token_without_access_token:
  assumes "\<not> truthy (access_token s)"
  shows "ensure_valid_token s w = (case authenticate s w of (b, s', w') \<Rightarrow> (Inr b, s', w')) \<and>
         trace (snd (snd (ensure_valid_token s w))) =
           trace w @ [Call_authenticate, Http_post (auth_request s)]"
proof -
  obtain b s' w' where a: "authenticate s w = (b, s', w')"
    by (cases "authenticate s w") auto
  have e: "ensure_valid_token s w = (Inr b, s', w')"
    using assms a by (simp add: ensure_valid_token_def)
  from a have "trace w' = trace w @ [Call_authenticate, Http_post (auth_request s)]"
    by (rule authenticate_trace)
  with a e show ?thesis by simp
qed

theorem ensure_valid_token_without_access_token_witness:
  "\<not> truthy (access_token fresh_client) \<and>
   ensure_valid_token fresh_client (world0 [json_reply 200 grant] []) =
     (Inr True,
      fresh_client\<lparr>access_token := JString ''tok1'', refresh_token := JString ''ref1'',
        token_expires_at := Some (now0 + 250000 + 3600000000)\<rparr>,
      \<lparr>clock = now0 + 250000, token_replies = [], api_replies = [], environ = [],
       trace = [Call_authenticate, Http_post (auth_request fresh_client)]\<rparr>)"
proof -
  have h: "\<not> truthy (access_token fresh_client)"
    by (simp add: fresh_client_def init_client_def)
  have a: "authenticate fresh_client (world0 [json_reply 200 grant] []) =
     (True,
      fresh_client\<lparr>access_token := JString ''tok1'', refresh_token := JString ''ref1'',
        token_expires_at := Some (now0 + 250000 + 3600000000)\<rparr>,
      \<lparr>clock = now0 + 250000, token_replies = [], api_replies = [], environ = [],
       trace = [Call_authenticate, Http_post (auth_request fresh_client)]\<rparr>)"
    by (simp add: authenticate_def authenticate_try_def requests_post_def auth_request_def
        world0_def json_reply_def grant_def dict_get_def dict_get_default_def
        timedelta_us_def datetime_add_def datetime_max_def day_us_def now0_def Let_def)
  show ?thesis
    using h ensure_valid_token_without_access_token [OF h, of "world0 [json_reply 200 grant] []"] a
    by simp
qed

text \<open>
  C3, as the claim states it, fails at the boundary. The client holds an access token,
  renews automatically, and its token expires exactly five minutes after the clock's
  reading. The comparison \<^verbatim>\<open>datetime.now() > self.token_expires_at - timedelta(minutes=5)\<close>
  is strict, so \<^verbatim>\<open>_ensure_valid_token\<close> returns \<^verbatim>\<open>True\<close> at once: the object and the
  world are untouched and \<^verbatim>\<open>refresh_access_token\<close> is not entered.
\<close>

theorem ensure_valid_token_at_margin_counterexample:
  "truthy (access_token (holder (now0 + 300000000))) \<and>
   auto_refresh (holder (now0 + 300000000)) \<and>
   token_expires_at (holder (now0 + 300000000)) = Some (now0 + 300000000) \<and>
   int (clock (world0 [json_reply 200 grant] [])) = int (now0 + 300000000) - five_minutes \<and>
   ensure_valid_token (holder (now0 + 300000000)) (world0 [json_reply 200 grant] []) =
     (Inr True, holder (now0 + 300000000), world0 [json_reply 200 grant] []) \<and>
   count_list (trace (snd (snd (ensure_valid_token (holder (now0 + 300000000))
     (world0 [json_reply 200 grant] []))))) Call_refresh_access_token = 0"
  by (simp add: ensure_valid_token_def holder_def fresh_client_def init_client_def world0_def
      datetime_sub_def datetime_max_def day_us_def five_minutes_def now0_def Let_def)

text \<open>
  C3, amended. When an access token is held, renewal is automatic, an expiry \<open>t\<close> is
  stored (a datetime at least five minutes after \<^verbatim>\<open>datetime.min\<close>) and the clock reads
  strictly later than \<open>t\<close> minus five minutes, \<^verbatim>\<open>_ensure_valid_token\<close> is one call of
  \<^verbatim>\<open>refresh_access_token\<close>. The trace grows by exactly one entry into
  \<^verbatim>\<open>refresh_access_token\<close>, followed by its one POST when a refresh token is held, and by
  exactly one entry into \<^verbatim>\<open>authenticate\<close> and that method's one POST when none is held.
\<close>

theorem ensure_valid_token_within_margin:
  assumes "truthy (access_token s)" and "auto_refresh s"
    and "token_expires_at s = Some t" and "is_datetime t"
    and "five_minutes \<le> int t" and "int t - five_minutes < int (clock w)"
  shows "ensure_valid_token s w =
           (case refresh_access_token s w of (b, s', w') \<Rightarrow> (Inr b, s', w')) \<and>
         trace (snd (snd (ensure_valid_token s w))) = trace w @
           (if truthy (refresh_token s)
            then [Call_refresh_access_token, Http_post (refresh_request s)]
            else [Call_refresh_access_token, Call_authenticate, Http_post (auth_request s)])"
proof -
  have "datetime_sub t five_minutes = Inr (nat (int t - five_minutes))"
    using assms by (simp add: datetime_sub_def is_datetime_def five_minutes_def Let_def)
  moreover have "clock w > nat (int t - five_minutes)"
    using assms by (simp add: five_minutes_def)
  ultimately have e: "ensure_valid_token s w =
      (case refresh_access_token s w of (b, s', w') \<Rightarrow> (Inr b, s', w'))"
    using assms by (simp add: ensure_valid_token_def)
  obtain b s' w' where r: "refresh_access_token s w = (b, s', w')"
    by (cases "refresh_access_token s w") auto
  from r e refresh_access_token_trace [OF r] show ?thesis by simp
qed

theorem ensure_valid_token_within_margin_witness:
  "truthy (access_token (holder (now0 + 120000000))) \<and>
   auto_refresh (holder (now0 + 120000000)) \<and>
   token_expires_at (holder (now0 + 120000000)) = Some (now0 + 120000000) \<and>
   is_datetime (now0 + 120000000) \<and>
   five_minutes \<le> int (now0 + 120000000) \<and>
   int (now0 + 120000000) - five_minutes < int (clock (world0 [json_reply 200 grant] [])) \<and>
   trace (snd (snd (ensure_valid_token (holder (now0 + 120000000))
       (world0 [json_reply 200 grant] [])))) =
     [Call_refresh_access_token, Http_post (refresh_request (holder (now0 + 120000000)))] \<and>
   trace (snd (snd (ensure_valid_token ((holder (now0 + 120000000))\<lparr>refresh_token := JNull\<rparr>)
       (world0 [json_reply 200 grant] [])))) =
     [Call_refresh_access_token, Call_authenticate,
      Http_post (auth_request (holder (now0 + 120000000)))]"
proof -
  let ?s = "holder (now0 + 120000000)"
  let ?w = "world0 [json_reply 200 grant] []"
  have h1: "truthy (access_token ?s)" and h2: "auto_refresh ?s"
    and h3: "token_expires_at ?s = Some (now0 + 120000000)"
    and g1: "truthy (access_token (?s\<lparr>refresh_token := JNull\<rparr>))"
    and g2: "auto_refresh (?s\<lparr>refresh_token := JNull\<rparr>)"
    and g3: "token_expires_at (?s\<lparr>refresh_token := JNull\<rparr>) = Some (now0 + 120000000)"
    by (simp_all add: holder_def fresh_client_def init_client_def)
  have h4: "is_datetime (now0 + 120000000)"
    by (simp add: is_datetime_def datetime_max_def day_us_def now0_def)
  have h5: "five_minutes \<le> int (now0 + 120000000)"
    by (simp add: five_minutes_def now0_def)
  have h6: "int (now0 + 120000000) - five_minutes < int (clock ?w)"
    by (simp add: world0_def five_minutes_def)
  have r: "truthy (refresh_token ?s)" "\<not> truthy (refresh_token (?s\<lparr>refresh_token := JNull\<rparr>))"
    "auth_request (?s\<lparr>refresh_token := JNull\<rparr>) = auth_request ?s"
    "trace ?w = []"
    by (simp_all add: holder_def fresh_client_def init_client_def auth_request_def world0_def)
  show ?thesis
    using h1 h2 h3 h4 h5 h6 r
      ensure_valid_token_within_margin [OF h1 h2 h3 h4 h5 h6, THEN conjunct2]
      ensure_valid_token_within_margin [OF g1 g2 g3 h4 h5 h6, THEN conjunct2]
    by simp
qed

text \<open>
  C4. When an access token is held, renewal is automatic, an expiry \<open>t\<close> is stored (a
  datetime, as every stored expiry is: \<open>stored_expiry_is_datetime\<close>) and the clock reads
  strictly more than five minutes before \<open>t\<close>, \<^verbatim>\<open>_ensure_valid_token\<close> returns
  \<^verbatim>\<open>True\<close> and leaves the object and the world as they were: no entry into
  \<^verbatim>\<open>authenticate\<close> or \<^verbatim>\<open>refresh_access_token\<close> and no POST joins the trace.
\<close>

theorem ensure_valid_token_before_margin:
  assumes "truthy (access_token s)" and "auto_refresh s"
    and "token_expires_at s = Some t" and "is_datetime t"
    and "int (clock w) + five_minutes < int t"
  shows "ensure_valid_token s w = (Inr True, s, w)"
proof -
  have "datetime_sub t five_minutes = Inr (nat (int t - five_minutes))"
    using assms by (simp add: datetime_sub_def is_datetime_def five_minutes_def Let_def)
  moreover have "\<not> clock w > nat (int t - five_minutes)"
    using assms by (simp add: five_minutes_def)
  ultimately show ?thesis
    using assms by (simp add: ensure_valid_token_def)
qed

theorem ensure_valid_token_before_margin_witness:
  "truthy (access_token (holder (now0 + 3600000000))) \<and>
   auto_refresh (holder (now0 + 3600000000)) \<and>
   token_expires_at (holder (now0 + 3600000000)) = Some (now0 + 3600000000) \<and>
   is_datetime (now0 + 3600000000) \<and>
   int (clock (world0 [] [])) + five_minutes < int (now0 + 3600000000) \<and>
   ensure_valid_token (holder (now0 + 3600000000)) (world0 [] []) =
     (Inr True, holder (now0 + 3600000000), world0 [] []) \<and>
   trace (snd (snd (ensure_valid_token (holder (now0 + 3600000000)) (world0 [] [])))) = []"
proof -
  have h1: "truthy (access_token (holder (now0 + 3600000000)))"
    and h2: "auto_refresh (holder (now0 + 3600000000))"
    and h3: "token_expires_at (holder (now0 + 3600000000)) = Some (now0 + 3600000000)"
    by (simp_all add: holder_def fresh_client_def init_client_def)
  have h4: "is_datetime (now0 + 3600000000)"
    by (simp add: is_datetime_def datetime_max_def day_us_def now0_def)
  have h5: "int (clock (world0 [] [])) + five_minutes < int (now0 + 3600000000)"
    by (simp add: world0_def five_minutes_def)
  have t: "trace (world0 [] []) = []"
    by (simp add: world0_def)
  show ?thesis
    using h1 h2 h3 h4 h5 t ensure_valid_token_before_margin [OF h1 h2 h3 h4 h5]
    by simp
qed

section \<open>The dispatcher \_call\_api\<close>

text \<open>
  Once the token check has returned \<^verbatim>\<open>True\<close> and the payload has its time stamp, the
  result is decided by the one POST alone.
\<close>

lemma call_api_dispatch:
  assumes "ensure_valid_token s w = (Inr True, s1, w1)"
    and "timestamp_ms (clock w1) = Inr time"
    and "requests_post (api_request s1 time method params url) w1 = (r, w2)"
  shows "call_api s w method params url =
    (Inr (case r of
            Inl e \<Rightarrow> error_result e
          | Inr response \<Rightarrow>
              if status_code response = 200 then
                (case json_result response of Inl e \<Rightarrow> error_result e | Inr body \<Rightarrow> body)
              else http_error_result (status_code response)), s1, w2)"
  using assms by (simp add: call_api_def split: sum.splits)

lemma ensure_valid_token_holder:
  "ensure_valid_token (holder (now0 + 3600000000)) (world0 ts as) =
     (Inr True, holder (now0 + 3600000000), world0 ts as)"
  by (simp add: ensure_valid_token_def holder_def fresh_client_def init_client_def world0_def
      datetime_sub_def datetime_max_def day_us_def five_minutes_def now0_def Let_def)

lemma str_int_500: "str_int 500 = ''500''"
  by (simp add: str_int_def str_nat.simps digit_char_def)





text \<open>
  That client is what \<^verbatim>\<open>authenticate\<close> leaves when the token endpoint answers with a
  lifetime of minus 63902822280 seconds.
\<close>

lemma authenticate_reaches_early_expiry:
  "authenticate fresh_client
     (world0 [\<lparr>took = 0, outcome = Returns \<lparr>status_code = 200, json_result = Inr (JObject
        [(''access_token'', JString ''tok0''), (''refresh_token'', JString ''ref0''),
         (''expires_in'', JInt (- 63902822280))])\<rparr>\<rparr>] []) =
   (True, holder 120000000,
    \<lparr>clock = now0, token_replies = [], api_replies = [], environ = [],
     trace = [Call_authenticate, Http_post (auth_request fresh_client)]\<rparr>)"
  by (simp add: authenticate_def authenticate_try_def requests_post_def auth_request_def
      world0_def holder_def dict_get_def dict_get_default_def
      timedelta_us_def datetime_add_def datetime_max_def day_us_def now0_def Let_def)



text \<open>
  C5. When the token check succeeds, the payload has its time stamp, and the POST of
  \<^verbatim>\<open>_call_api\<close> returns a response whose status is not 200, the result is the dict with \<^verbatim>\<open>code\<close> the decimal string of
  the status and \<^verbatim>\<open>desc\<close> the text \<^verbatim>\<open>HTTP <status> error\<close>, and nothing else: no
  \<^verbatim>\<open>data\<close>. No exception leaves the method, and what \<^verbatim>\<open>response.json()\<close> would do
  is never asked. For status 500 the result is
  \<^verbatim>\<open>{"code": "500", "desc": "HTTP 500 error"}\<close>, here on a body that is not JSON.
\<close>

theorem call_api_http_error:
  assumes "ensure_valid_token s w = (Inr True, s1, w1)"
    and "timestamp_ms (clock w1) = Inr time"
    and "requests_post (api_request s1 time method params url) w1 = (Inr response, w2)"
    and "status_code response \<noteq> 200"
  shows "call_api s w method params url =
           (Inr (JObject [(''code'', JString (str_int (status_code response))),
                          (''desc'', JString (''HTTP '' @ str_int (status_code response) @ '' error''))]),
            s1, w2) \<and>
         \<not> has_data (http_error_result (status_code response))"
proof -
  from assms(4) have "call_api s w method params url =
      (Inr (http_error_result (status_code response)), s1, w2)"
    by (simp add: call_api_dispatch [OF assms(1,2,3)])
  moreover have "\<not> has_data (http_error_result (status_code response))"
    by (simp add: http_error_result_def)
  ultimately show ?thesis
    by (simp add: http_error_result_def)
qed

theorem call_api_http_error_witness:
  "ensure_valid_token (holder (now0 + 3600000000))
      (world0 [] [\<lparr>took = 250000, outcome = Returns \<lparr>status_code = 500,
         json_result = Inl (Exn JSONDecodeError ''Expecting value'')\<rparr>\<rparr>]) =
     (Inr True, holder (now0 + 3600000000),
      world0 [] [\<lparr>took = 250000, outcome = Returns \<lparr>status_code = 500,
         json_result = Inl (Exn JSONDecodeError ''Expecting value'')\<rparr>\<rparr>]) \<and>
   timestamp_ms (clock (world0 [] [\<lparr>took = 250000, outcome = Returns \<lparr>status_code = 500,
         json_result = Inl (Exn JSONDecodeError ''Expecting value'')\<rparr>\<rparr>])) =
     Inr 1767225600000 \<and>
   (500::int) \<noteq> 200 \<and>
   fst (call_api (holder (now0 + 3600000000))
      (world0 [] [\<lparr>took = 250000, outcome = Returns \<lparr>status_code = 500,
         json_result = Inl (Exn JSONDecodeError ''Expecting value'')\<rparr>\<rparr>])
      ''Home.getGeneralInfo'' JNull None) =
     Inr (JObject [(''code'', JString ''500''), (''desc'', JString ''HTTP 500 error'')])"
proof -
  let ?s = "holder (now0 + 3600000000)"
  let ?resp = "\<lparr>status_code = 500, json_result = Inl (Exn JSONDecodeError ''Expecting value'')\<rparr>"
  let ?w = "world0 [] [\<lparr>took = 250000, outcome = Returns ?resp\<rparr>]"
  let ?req = "api_request ?s 1767225600000 ''Home.getGeneralInfo'' JNull None"
  let ?w2 = "?w\<lparr>trace := [Http_post ?req], clock := now0 + 250000, api_replies := []\<rparr>"
  have h1: "ensure_valid_token ?s ?w = (Inr True, ?s, ?w)"
    by (rule ensure_valid_token_holder)
  have t: "timestamp_ms (clock ?w) = Inr 1767225600000"
    by (rule timestamp_ms_world0)
  have h2: "requests_post ?req ?w = (Inr ?resp, ?w2)"
    by (simp add: requests_post_def api_request_def API_URL_def TOKEN_URL_def world0_def Let_def)
  have h3: "status_code ?resp \<noteq> 200"
    by simp
  have d: "str_int 500 = ''500''"
    by (rule str_int_500)
  show ?thesis
    using h1 t d call_api_http_error [OF h1 t h2 h3] by simp
qed

text \<open>
  C10. With \<^verbatim>\<open>params\<close> the empty dict, \<^verbatim>\<open>_call_api\<close> does what it does with
  \<^verbatim>\<open>params\<close> absent: same result, same object, same world, and so the same request in
  the trace. The envelope has no \<^verbatim>\<open>params\<close> key; in general it has one exactly when
  \<^verbatim>\<open>params\<close> is truthy.
\<close>

theorem call_api_empty_params:
  "call_api s w method (JObject []) url = call_api s w method JNull url \<and>
   envelope method time (JObject []) = envelope method time JNull \<and>
   map_of (envelope method time (JObject [])) ''params'' = None \<and>
   (map_of (envelope method time params) ''params'' \<noteq> None) = truthy params"
proof -
  have e: "envelope method t (JObject []) = envelope method t JNull" for t
    by (simp add: envelope_def)
  have r: "api_request s' t method (JObject []) url = api_request s' t method JNull url" for s' t
    by (simp add: api_request_def e)
  have "call_api s w method (JObject []) url = call_api s w method JNull url"
    unfolding call_api_def r by (rule refl)
  moreover have "map_of (envelope method time (JObject [])) ''params'' = None"
    by (simp add: envelope_def)
  moreover have "(map_of (envelope method time params) ''params'' \<noteq> None) = truthy params"
    by (simp add: envelope_def Let_def)
  ultimately show ?thesis
    using e by simp
qed

theorem call_api_empty_params_witness:
  "snd (snd (call_api (holder (now0 + 3600000000)) (world0 [] [json_reply 200 (JObject [])])
      ''Home.getDeviceList'' (JObject []) None)) =
   \<lparr>clock = now0 + 250000, token_replies = [], api_replies = [], environ = [],
    trace = [Http_post
      \<lparr>req_url = API_URL,
       req_payload = Json_body (JObject
         [(''method'', JString ''Home.getDeviceList''), (''time'', JInt 1767225600000)]),
       req_headers = [(''Content-Type'', Plain ''application/json''),
                      (''Authorization'', Bearer (JString ''tok0''))],
       req_timeout = Some 10\<rparr>]\<rparr>"
proof -
  let ?s = "holder (now0 + 3600000000)"
  let ?w = "world0 [] [json_reply 200 (JObject [])]"
  have e: "ensure_valid_token ?s ?w = (Inr True, ?s, ?w)"
    by (rule ensure_valid_token_holder)
  have t: "timestamp_ms (clock ?w) = Inr 1767225600000"
    by (rule timestamp_ms_world0)
  have a: "access_token ?s = JString ''tok0''"
    by (simp add: holder_def)
  have p: "requests_post (api_request ?s 1767225600000 ''Home.getDeviceList'' JNull None) ?w =
    (Inr \<lparr>status_code = 200, json_result = Inr (JObject [])\<rparr>,
   \<lparr>clock = now0 + 250000, token_replies = [], api_replies = [], environ = [],
    trace = [Http_post
      \<lparr>req_url = API_URL,
       req_payload = Json_body (JObject
         [(''method'', JString ''Home.getDeviceList''), (''time'', JInt 1767225600000)]),
       req_headers = [(''Content-Type'', Plain ''application/json''),
                      (''Authorization'', Bearer (JString ''tok0''))],
       req_timeout = Some 10\<rparr>]\<rparr>)"
    by (simp add: api_request_def envelope_def a requests_post_def
        API_URL_def TOKEN_URL_def world0_def json_reply_def)
  have "snd (snd (call_api ?s ?w ''Home.getDeviceList'' JNull None)) =
   \<lparr>clock = now0 + 250000, token_replies = [], api_replies = [], environ = [],
    trace = [Http_post
      \<lparr>req_url = API_URL,
       req_payload = Json_body (JObject
         [(''method'', JString ''Home.getDeviceList''), (''time'', JInt 1767225600000)]),
       req_headers = [(''Content-Type'', Plain ''application/json''),
                      (''Authorization'', Bearer (JString ''tok0''))],
       req_timeout = Some 10\<rparr>]\<rparr>"
    by (simp add: call_api_dispatch [OF e t p])
  then show ?thesis
    using call_api_empty_params [of ?s ?w "''Home.getDeviceList''" None 0, THEN conjunct1]
    by simp
qed

section \<open>create\_client\<close>

text \<open>
  C8. A credential is supplied by a value that is truthy: a non-empty string, as
  \<^verbatim>\<open>uaid or os.getenv(...)\<close> and \<^verbatim>\<open>not uaid\<close> test it. When neither the argument nor
  the environment variable supplies the identifier, or neither supplies the secret,
  \<^verbatim>\<open>create_client\<close> raises \<^verbatim>\<open>ValueError\<close> and returns no client; otherwise it returns
  the client that \<^verbatim>\<open>__init__\<close> builds from the supplied values, without error. In both
  cases the world is as before: nothing was sent.
\<close>

theorem create_client_configuration:
  "create_client a b w =
     (if (\<not> truthy a \<and> \<not> truthy (getenv w ''YOSMART_UAID'')) \<or>
         (\<not> truthy b \<and> \<not> truthy (getenv w ''YOSMART_SECRET''))
      then (Inl (Exn ValueError
              ''UAID and secret_key must be provided or set as environment variables''), w)
      else (Inr (init_client (py_or a (getenv w ''YOSMART_UAID''))
                   (py_or b (getenv w ''YOSMART_SECRET'')) True), w))"
proof -
  have u: "truthy (py_or a (getenv w ''YOSMART_UAID'')) =
      (truthy a \<or> truthy (getenv w ''YOSMART_UAID''))"
    by (simp add: py_or_def)
  have k: "truthy (py_or b (getenv w ''YOSMART_SECRET'')) =
      (truthy b \<or> truthy (getenv w ''YOSMART_SECRET''))"
    by (simp add: py_or_def)
  show ?thesis
    unfolding create_client_def Let_def u k by simp
qed

theorem create_client_configuration_witness:
  "create_client JNull JNull (world0 [] []) =
     (Inl (Exn ValueError
        ''UAID and secret_key must be provided or set as environment variables''), world0 [] []) \<and>
   create_client (JString ''ua_1'') JNull (world0 [] []) =
     (Inl (Exn ValueError
        ''UAID and secret_key must be provided or set as environment variables''), world0 [] []) \<and>
   create_client (JString ''ua_1'') JNull
       ((world0 [] [])\<lparr>environ := [(''YOSMART_SECRET'', ''sec_1'')]\<rparr>) =
     (Inr fresh_client, (world0 [] [])\<lparr>environ := [(''YOSMART_SECRET'', ''sec_1'')]\<rparr>)"
  using create_client_configuration [of JNull JNull "world0 [] []"]
    create_client_configuration [of "JString ''ua_1''" JNull "world0 [] []"]
    create_client_configuration [of "JString ''ua_1''" JNull
      "(world0 [] [])\<lparr>environ := [(''YOSMART_SECRET'', ''sec_1'')]\<rparr>"]
  by (simp add: getenv_def world0_def py_or_def fresh_client_def)

section \<open>The invariant of the token state\<close>

text \<open>
  Each operation keeps the invariant, and leaves the token endpoint with replies that
  offer an access token, when it starts from such a state and such a world.
\<close>

lemma requests_post_replies:
  assumes "requests_post req w = (r, w')" and "list_all P (token_replies w)"
  shows "list_all P (token_replies w')"
  using assms
  by (auto simp: requests_post_def Let_def split: if_splits list.splits)

lemma requests_post_offer:
  assumes "requests_post req w = (Inr response, w')" and "req_url req = TOKEN_URL"
    and "list_all offers_token (token_replies w)"
    and "status_code response = 200" and "json_result response = Inr data"
    and "dict_of data = Inr d"
  shows "dict_get d ''access_token'' \<noteq> JNull"
proof -
  from assms(1,2) obtain r rs where t: "token_replies w = r # rs"
    and d: "deliver (outcome r) = Inr response"
    by (auto simp: requests_post_def Let_def unreachable_def split: list.splits)
  from t assms(3) have "offers_token r"
    by simp
  with d assms(4-6) show ?thesis
    by (simp add: offers_token_def offered_access_token_def)
qed

lemma authenticate_try_inv:
  assumes "authenticate_try s w = (r, s', w')"
    and "token_inv s" and "list_all offers_token (token_replies w)"
  shows "token_inv s' \<and> list_all offers_token (token_replies w')"
proof -
  obtain r0 w1 where p: "requests_post (auth_request s) w = (r0, w1)"
    by (cases "requests_post (auth_request s) w") auto
  have u: "req_url (auth_request s) = TOKEN_URL"
    by (simp add: auth_request_def)
  note rep = requests_post_replies [OF p assms(3)]
  note off = requests_post_offer [OF _ u assms(3)]
  from assms(1,2) p rep off show ?thesis
    unfolding authenticate_try_def
    by (auto simp: Let_def token_inv_def split: sum.splits if_splits)
qed

lemma refresh_try_inv:
  assumes "refresh_try s w = (r, s', w')"
    and "token_inv s" and "list_all offers_token (token_replies w)"
  shows "token_inv s' \<and> list_all offers_token (token_replies w')"
proof -
  obtain r0 w1 where p: "requests_post (refresh_request s) w = (r0, w1)"
    by (cases "requests_post (refresh_request s) w") auto
  have u: "req_url (refresh_request s) = TOKEN_URL"
    by (simp add: refresh_request_def)
  note rep = requests_post_replies [OF p assms(3)]
  note off = requests_post_offer [OF _ u assms(3)]
  from assms(1,2) p rep off show ?thesis
    unfolding refresh_try_def
    by (auto simp: Let_def token_inv_def split: sum.splits if_splits)
qed

lemma authenticate_inv:
  assumes "authenticate s w = (b, s', w')"
    and "token_inv s" and "list_all offers_token (token_replies w)"
  shows "token_inv s' \<and> list_all offers_token (token_replies w')"
proof -
  from assms(1) obtain r where
    "authenticate_try s (w\<lparr>trace := trace w @ [Call_authenticate]\<rparr>) = (r, s', w')"
    unfolding authenticate_def by (blast dest: caught_cases)
  from authenticate_try_inv [OF this assms(2)] assms(3) show ?thesis
    by simp
qed

lemma refresh_access_token_inv:
  assumes "refresh_access_token s w = (b, s', w')"
    and "token_inv s" and "list_all offers_token (token_replies w)"
  shows "token_inv s' \<and> list_all offers_token (token_replies w')"
proof (cases "truthy (refresh_token s)")
  case True
  with assms(1) obtain r where
    "refresh_try s (w\<lparr>trace := trace w @ [Call_refresh_access_token]\<rparr>) = (r, s', w')"
    unfolding refresh_access_token_def Let_def by (auto dest: caught_cases)
  from refresh_try_inv [OF this assms(2)] assms(3) show ?thesis
    by simp
next
  case False
  with assms(1) have
    "authenticate s (w\<lparr>trace := trace w @ [Call_refresh_access_token]\<rparr>) = (b, s', w')"
    unfolding refresh_access_token_def Let_def by simp
  from authenticate_inv [OF this assms(2)] assms(3) show ?thesis
    by simp
qed

lemma ensure_valid_token_inv:
  assumes "ensure_valid_token s w = (r, s', w')"
    and "token_inv s" and "list_all offers_token (token_replies w)"
  shows "token_inv s' \<and> list_all offers_token (token_replies w')"
  using assms
  unfolding ensure_valid_token_def
  by (auto split: if_splits option.splits sum.splits prod.splits
      dest: authenticate_inv refresh_access_token_inv)

lemma call_api_inv:
  assumes "call_api s w method params url = (r, s', w')"
    and "token_inv s" and "list_all offers_token (token_replies w)"
  shows "token_inv s' \<and> list_all offers_token (token_replies w')"
proof -
  obtain r1 s1 w1 where e: "ensure_valid_token s w = (r1, s1, w1)"
    by (cases "ensure_valid_token s w") auto
  note i = ensure_valid_token_inv [OF e assms(2,3)]
  then have "list_all offers_token (token_replies w2)"
    if "requests_post req w1 = (r2, w2)" for req r2 w2
    using requests_post_replies [OF that] by simp
  with assms(1) e i show ?thesis
    unfolding call_api_def
    by (auto split: sum.splits if_splits prod.splits)
qed

lemma perform_inv:
  assumes "token_inv (fst cw)" and "list_all offers_token (token_replies (snd cw))"
  shows "token_inv (fst (perform op cw)) \<and>
         list_all offers_token (token_replies (snd (perform op cw)))"
proof -
  obtain s w where cw: "cw = (s, w)"
    by (cases cw) auto
  show ?thesis
  proof (cases op)
    case Authenticate
    obtain b s' w' where "authenticate s w = (b, s', w')"
      by (cases "authenticate s w") auto
    with authenticate_inv [OF this] assms cw Authenticate show ?thesis by simp
  next
    case Refresh_access_token
    obtain b s' w' where "refresh_access_token s w = (b, s', w')"
      by (cases "refresh_access_token s w") auto
    with refresh_access_token_inv [OF this] assms cw Refresh_access_token show ?thesis by simp
  next
    case Ensure_valid_token
    obtain b s' w' where "ensure_valid_token s w = (b, s', w')"
      by (cases "ensure_valid_token s w") auto
    with ensure_valid_token_inv [OF this] assms cw Ensure_valid_token show ?thesis by simp
  next
    case (Call_api m p u)
    obtain b s' w' where "call_api s w m p u = (b, s', w')"
      by (cases "call_api s w m p u") auto
    with call_api_inv [OF this] assms cw Call_api show ?thesis by simp
  qed
qed

lemma run_inv:
  "token_inv (fst cw) \<Longrightarrow> list_all offers_token (token_replies (snd cw)) \<Longrightarrow>
     token_inv (fst (run ops cw))"
  unfolding run_def
  by (induction ops arbitrary: cw) (simp_all add: perform_inv)

text \<open>
  C6, as the claim states it, fails. The token endpoint answers the first
  \<^verbatim>\<open>authenticate\<close> of a new client with status 200 and the body \<^verbatim>\<open>{}\<close>. The method
  stores \<^verbatim>\<open>data.get('access_token')\<close>, which is \<^verbatim>\<open>None\<close>, then the expiry from the
  default lifetime, and returns \<^verbatim>\<open>True\<close>: the client holds an expiry and no access
  token.
\<close>

theorem expiry_without_access_token_counterexample:
  "token_inv fresh_client \<and>
   fst (authenticate fresh_client (world0 [json_reply 200 (JObject [])] [])) = True \<and>
   access_token (fst (snd (authenticate fresh_client (world0 [json_reply 200 (JObject [])] []))))
     = JNull \<and>
   token_expires_at (fst (snd (authenticate fresh_client (world0 [json_reply 200 (JObject [])] []))))
     = Some (now0 + 250000 + 3600000000) \<and>
   \<not> token_inv (fst (snd (authenticate fresh_client (world0 [json_reply 200 (JObject [])] []))))"
  by (simp add: authenticate_def authenticate_try_def requests_post_def auth_request_def
      world0_def json_reply_def dict_get_def dict_get_default_def token_inv_def
      fresh_client_def init_client_def
      timedelta_us_def datetime_add_def datetime_max_def day_us_def now0_def Let_def)

text \<open>
  C6, amended. Provided every reply of the token endpoint that is a 200 with a JSON
  object as its body carries an \<^verbatim>\<open>access_token\<close> other than \<^verbatim>\<open>None\<close>, the invariant
  holds of a new client and of every state reached from it by any sequence of
  \<^verbatim>\<open>authenticate\<close>, \<^verbatim>\<open>refresh_access_token\<close>, \<^verbatim>\<open>_ensure_valid_token\<close> and
  \<^verbatim>\<open>_call_api\<close>: while \<^verbatim>\<open>access_token\<close> is \<^verbatim>\<open>None\<close>, so is
  \<^verbatim>\<open>token_expires_at\<close>.
\<close>

theorem token_inv_reachable:
  assumes "list_all offers_token (token_replies w)"
  shows "token_inv (init_client u k ar) \<and>
         token_inv (fst (run ops (init_client u k ar, w)))"
proof -
  have i: "token_inv (init_client u k ar)"
    by (simp add: token_inv_def init_client_def)
  with assms run_inv [of "(init_client u k ar, w)" ops] show ?thesis
    by simp
qed

theorem token_inv_reachable_witness:
  "list_all offers_token (token_replies
     (world0 [json_reply 200 grant] [json_reply 200 (JObject [(''code'', JString ''000000'')])])) \<and>
   token_inv (fst (run [Authenticate, Call_api ''Home.getGeneralInfo'' JNull None]
     (fresh_client,
      world0 [json_reply 200 grant] [json_reply 200 (JObject [(''code'', JString ''000000'')])]))) \<and>
   access_token (fst (run [Authenticate, Call_api ''Home.getGeneralInfo'' JNull None]
     (fresh_client,
      world0 [json_reply 200 grant] [json_reply 200 (JObject [(''code'', JString ''000000'')])])))
     = JString ''tok1''"
proof -
  let ?w = "world0 [json_reply 200 grant] [json_reply 200 (JObject [(''code'', JString ''000000'')])]"
  let ?s1 = "fresh_client\<lparr>access_token := JString ''tok1'', refresh_token := JString ''ref1'',
        token_expires_at := Some (now0 + 250000 + 3600000000)\<rparr>"
  have h: "list_all offers_token (token_replies ?w)"
    by (simp add: world0_def json_reply_def grant_def offers_token_def offered_access_token_def
        dict_get_def)
  have a: "\<exists>w1. authenticate fresh_client ?w = (True, ?s1, w1) \<and> clock w1 = now0 + 250000"
    by (simp add: authenticate_def authenticate_try_def requests_post_def auth_request_def
        world0_def json_reply_def grant_def dict_get_def dict_get_default_def
        timedelta_us_def datetime_add_def datetime_max_def day_us_def now0_def Let_def)
  then obtain w1 where a1: "authenticate fresh_client ?w = (True, ?s1, w1)"
    and c1: "clock w1 = now0 + 250000"
    by blast
  have e: "ensure_valid_token ?s1 w1 = (Inr True, ?s1, w1)"
    by (simp add: ensure_valid_token_def c1 datetime_sub_def datetime_max_def day_us_def
        five_minutes_def now0_def Let_def)
  have "day_us \<le> int (clock w1)"
    by (simp add: c1 day_us_def now0_def)
  then obtain time where t: "timestamp_ms (clock w1) = Inr time"
    using timestamp_ms_returns by blast
  obtain r2 w2 where
    p: "requests_post (api_request ?s1 time ''Home.getGeneralInfo'' JNull None) w1 = (r2, w2)"
    by (cases "requests_post (api_request ?s1 time ''Home.getGeneralInfo'' JNull None) w1") auto
  have "fst (snd (call_api ?s1 w1 ''Home.getGeneralInfo'' JNull None)) = ?s1"
    by (simp only: call_api_dispatch [OF e t p] fst_conv snd_conv)
  with a1 have "access_token (fst (run [Authenticate, Call_api ''Home.getGeneralInfo'' JNull None]
     (fresh_client, ?w))) = JString ''tok1''"
    by (simp add: run_def)
  with h token_inv_reachable [OF h, of "JString ''ua_1''" "JString ''sec_1''" True
      "[Authenticate, Call_api ''Home.getGeneralInfo'' JNull None]"]
  show ?thesis
    by (simp add: fresh_client_def)
qed

section \<open>What a token request changes\<close>

text \<open>
  When a refresh token is held, \<^verbatim>\<open>refresh_access_token\<close> never assigns
  \<^verbatim>\<open>self.refresh_token\<close>, whatever the exchange does.
\<close>

lemma refresh_access_token_refresh_token:
  assumes "truthy (refresh_token s)"
  shows "refresh_token (fst (snd (refresh_access_token s w))) = refresh_token s"
  using assms
  unfolding refresh_access_token_def refresh_try_def Let_def
  by (auto split: prod.splits sum.splits if_splits)

text \<open>
  C7. The claim holds of the specification and the code misses it. The client holds the
  refresh token \<^verbatim>\<open>ref0\<close>; the exchange succeeds, and its response provides the fresh
  refresh token \<^verbatim>\<open>ref1\<close>. \<^verbatim>\<open>refresh_access_token\<close> returns \<^verbatim>\<open>True\<close> and replaces
  the access token by the one of the response, but the stored refresh token is still
  \<^verbatim>\<open>ref0\<close>: the fresh one is dropped. \<^verbatim>\<open>authenticate\<close>, given the same reply of the
  same endpoint, stores \<^verbatim>\<open>ref1\<close>.
\<close>

theorem refresh_drops_fresh_refresh_token:
  "truthy (refresh_token (holder now0)) \<and>
   grant = JObject [(''access_token'', JString ''tok1''), (''refresh_token'', JString ''ref1''),
                    (''expires_in'', JInt 3600)] \<and>
   fst (refresh_access_token (holder now0) (world0 [json_reply 200 grant] [])) = True \<and>
   refresh_token (holder now0) = JString ''ref0'' \<and>
   refresh_token (fst (snd (refresh_access_token (holder now0)
     (world0 [json_reply 200 grant] [])))) = JString ''ref0'' \<and>
   access_token (fst (snd (refresh_access_token (holder now0)
     (world0 [json_reply 200 grant] [])))) = JString ''tok1'' \<and>
   refresh_token (fst (snd (authenticate (holder now0)
     (world0 [json_reply 200 grant] [])))) = JString ''ref1''"
  by (simp add: refresh_access_token_def refresh_try_def authenticate_def authenticate_try_def
      requests_post_def refresh_request_def auth_request_def
      holder_def fresh_client_def init_client_def
      world0_def json_reply_def grant_def dict_get_def dict_get_default_def
      timedelta_us_def datetime_add_def datetime_max_def day_us_def now0_def Let_def)

text \<open>
  What a successful exchange does assign: \<^verbatim>\<open>access_token\<close> becomes the response's
  \<^verbatim>\<open>access_token\<close> and \<^verbatim>\<open>token_expires_at\<close> the clock's reading after the exchange
  plus the lifetime, 3600 seconds when the response has none.
\<close>

lemma refresh_access_token_success:
  assumes "truthy (refresh_token s)"
    and "token_replies w = r # rs" and "outcome r = Returns response"
    and "status_code response = 200" and "json_result response = Inr (JObject d)"
    and "timedelta_seconds (dict_get_default d ''expires_in'' (JInt 3600)) = Inr td"
    and "datetime_add (clock w + took r) td = Inr t"
  shows "fst (refresh_access_token s w) = True \<and>
         fst (snd (refresh_access_token s w)) =
           s\<lparr>access_token := dict_get d ''access_token'', token_expires_at := Some t\<rparr> \<and>
         refresh_token (fst (snd (refresh_access_token s w))) = refresh_token s"
proof -
  let ?w0 = "w\<lparr>trace := trace w @ [Call_refresh_access_token]\<rparr>"
  have "\<exists>w1. requests_post (refresh_request s) ?w0 = (Inr response, w1) \<and>
          clock w1 = clock w + took r"
    using assms(2,3) by (simp add: requests_post_def refresh_request_def Let_def)
  then obtain w1 where p: "requests_post (refresh_request s) ?w0 = (Inr response, w1)"
    and c: "clock w1 = clock w + took r"
    by blast
  have "refresh_try s ?w0 =
      (Inr True, s\<lparr>access_token := dict_get d ''access_token'', token_expires_at := Some t\<rparr>, w1)"
    using assms(4-7) by (simp add: refresh_try_def p c Let_def)
  with assms(1) show ?thesis
    by (simp add: refresh_access_token_def Let_def)
qed

text \<open>
  A token request that does not return \<^verbatim>\<open>True\<close> leaves the expiry as it was, and the
  whole object as it was unless the reply was a 200 with a JSON object as its body.
\<close>

lemma requests_post_no_object:
  assumes "requests_post req w = (Inr response, w')" and "req_url req = TOKEN_URL"
    and "\<not> next_reply_is_object w"
    and "status_code response = 200" and "json_result response = Inr data"
  shows "\<exists>e. dict_of data = Inl e"
proof -
  from assms(1,2) obtain r rs where t: "token_replies w = r # rs"
    and d: "deliver (outcome r) = Inr response"
    by (auto simp: requests_post_def Let_def unreachable_def split: list.splits)
  from t assms(3) have "offered_access_token r = None"
    by (simp add: next_reply_is_object_def)
  with d assms(4,5) show ?thesis
    by (auto simp: offered_access_token_def split: sum.splits)
qed

lemma requests_post_next_reply:
  "next_reply_is_object (w\<lparr>trace := tr\<rparr>) = next_reply_is_object w"
  by (simp add: next_reply_is_object_def)

lemma authenticate_try_failure:
  assumes "authenticate_try s w = (r, s', w')" and "r \<noteq> Inr True"
  shows "token_expires_at s' = token_expires_at s \<and>
         (\<not> next_reply_is_object w \<longrightarrow> s' = s)"
proof -
  obtain r0 w1 where p: "requests_post (auth_request s) w = (r0, w1)"
    by (cases "requests_post (auth_request s) w") auto
  have u: "req_url (auth_request s) = TOKEN_URL"
    by (simp add: auth_request_def)
  note no = requests_post_no_object [OF _ u]
  from assms p show ?thesis
    unfolding authenticate_try_def
    by (auto simp: Let_def split: sum.splits if_splits dest: no)
qed

lemma refresh_try_failure:
  assumes "refresh_try s w = (r, s', w')" and "r \<noteq> Inr True"
  shows "token_expires_at s' = token_expires_at s \<and>
         (\<not> next_reply_is_object w \<longrightarrow> s' = s)"
proof -
  obtain r0 w1 where p: "requests_post (refresh_request s) w = (r0, w1)"
    by (cases "requests_post (refresh_request s) w") auto
  have u: "req_url (refresh_request s) = TOKEN_URL"
    by (simp add: refresh_request_def)
  note no = requests_post_no_object [OF _ u]
  from assms p show ?thesis
    unfolding refresh_try_def
    by (auto simp: Let_def split: sum.splits if_splits dest: no)
qed

lemma caught_False:
  "caught x = (False, s', w') \<Longrightarrow> \<exists>r. x = (r, s', w') \<and> r \<noteq> Inr True"
  by (cases x rule: caught.cases) auto

lemma authenticate_failure:
  assumes "authenticate s w = (False, s', w')"
  shows "token_expires_at s' = token_expires_at s \<and>
         (\<not> next_reply_is_object w \<longrightarrow> token_fields s' = token_fields s)"
proof -
  from assms obtain r where
    "authenticate_try s (w\<lparr>trace := trace w @ [Call_authenticate]\<rparr>) = (r, s', w')"
    and "r \<noteq> Inr True"
    unfolding authenticate_def by (blast dest: caught_False)
  from authenticate_try_failure [OF this] show ?thesis
    by (simp add: requests_post_next_reply)
qed

lemma refresh_access_token_failure:
  assumes "refresh_access_token s w = (False, s', w')"
  shows "token_expires_at s' = token_expires_at s \<and>
         (\<not> next_reply_is_object w \<longrightarrow> token_fields s' = token_fields s)"
proof (cases "truthy (refresh_token s)")
  case True
  with assms obtain r where
    "refresh_try s (w\<lparr>trace := trace w @ [Call_refresh_access_token]\<rparr>) = (r, s', w')"
    and "r \<noteq> Inr True"
    unfolding refresh_access_token_def Let_def by (auto dest: caught_False)
  from refresh_try_failure [OF this] show ?thesis
    by (simp add: requests_post_next_reply)
next
  case False
  with assms have
    "authenticate s (w\<lparr>trace := trace w @ [Call_refresh_access_token]\<rparr>) = (False, s', w')"
    unfolding refresh_access_token_def Let_def by simp
  from authenticate_failure [OF this] show ?thesis
    by (simp add: requests_post_next_reply)
qed

text \<open>
  C9, as the claim states it, fails. The client holds \<^verbatim>\<open>tok0\<close> and \<^verbatim>\<open>ref0\<close>; the
  token endpoint answers with status 200 and the body
  \<^verbatim>\<open>{"access_token": "tok1", "expires_in": "3600"}\<close>, the lifetime as a string.
  \<^verbatim>\<open>timedelta(seconds="3600")\<close> raises \<^verbatim>\<open>TypeError\<close> after the assignments before it:
  \<^verbatim>\<open>authenticate\<close> returns \<^verbatim>\<open>False\<close> with \<^verbatim>\<open>access_token\<close> replaced and
  \<^verbatim>\<open>refresh_token\<close> cleared, and \<^verbatim>\<open>refresh_access_token\<close> returns \<^verbatim>\<open>False\<close> with
  \<^verbatim>\<open>access_token\<close> replaced.
\<close>

theorem failed_token_request_overwrites_counterexample:
  "fst (authenticate (holder now0)
     (world0 [json_reply 200 (JObject [(''access_token'', JString ''tok1''),
                                       (''expires_in'', JString ''3600'')])] [])) = False \<and>
   token_fields (holder now0) = (JString ''tok0'', JString ''ref0'', Some now0) \<and>
   token_fields (fst (snd (authenticate (holder now0)
     (world0 [json_reply 200 (JObject [(''access_token'', JString ''tok1''),
                                       (''expires_in'', JString ''3600'')])] [])))) =
     (JString ''tok1'', JNull, Some now0) \<and>
   fst (refresh_access_token (holder now0)
     (world0 [json_reply 200 (JObject [(''access_token'', JString ''tok1''),
                                       (''expires_in'', JString ''3600'')])] [])) = False \<and>
   token_fields (fst (snd (refresh_access_token (holder now0)
     (world0 [json_reply 200 (JObject [(''access_token'', JString ''tok1''),
                                       (''expires_in'', JString ''3600'')])] [])))) =
     (JString ''tok1'', JString ''ref0'', Some now0)"
  by (simp add: authenticate_def authenticate_try_def refresh_access_token_def refresh_try_def
      requests_post_def auth_request_def refresh_request_def token_fields_def
      holder_def fresh_client_def init_client_def
      world0_def json_reply_def dict_get_def dict_get_default_def Let_def)

text \<open>
  C9, amended. Whenever \<^verbatim>\<open>authenticate\<close> or \<^verbatim>\<open>refresh_access_token\<close> returns
  \<^verbatim>\<open>False\<close>, \<^verbatim>\<open>token_expires_at\<close> is as it was before the call; and
  \<^verbatim>\<open>access_token\<close> and \<^verbatim>\<open>refresh_token\<close> are as they were too, unless the reply was
  a 200 whose body is a JSON object: so for a status other than 200, for an exception of
  the transport, and for a body that does not parse or is not an object.
\<close>

theorem failed_token_request_keeps_fields:
  "(fst (authenticate s w) = False \<longrightarrow>
      token_expires_at (fst (snd (authenticate s w))) = token_expires_at s \<and>
      (\<not> next_reply_is_object w \<longrightarrow>
         token_fields (fst (snd (authenticate s w))) = token_fields s)) \<and>
   (fst (refresh_access_token s w) = False \<longrightarrow>
      token_expires_at (fst (snd (refresh_access_token s w))) = token_expires_at s \<and>
      (\<not> next_reply_is_object w \<longrightarrow>
         token_fields (fst (snd (refresh_access_token s w))) = token_fields s))"
proof -
  obtain b s' w' where a: "authenticate s w = (b, s', w')"
    by (cases "authenticate s w") auto
  obtain c s'' w'' where r: "refresh_access_token s w = (c, s'', w'')"
    by (cases "refresh_access_token s w") auto
  from a r show ?thesis
    using authenticate_failure [of s w s' w'] refresh_access_token_failure [of s w s'' w'']
    by auto
qed

theorem failed_token_request_keeps_fields_witness:
  "fst (authenticate (holder now0) (world0 [json_reply 401 (JObject [])] [])) = False \<and>
   \<not> next_reply_is_object (world0 [json_reply 401 (JObject [])] []) \<and>
   token_fields (fst (snd (authenticate (holder now0) (world0 [json_reply 401 (JObject [])] []))))
     = (JString ''tok0'', JString ''ref0'', Some now0) \<and>
   fst (refresh_access_token (holder now0) (world0 [] [])) = False \<and>
   \<not> next_reply_is_object (world0 [] []) \<and>
   token_fields (fst (snd (refresh_access_token (holder now0) (world0 [] []))))
     = (JString ''tok0'', JString ''ref0'', Some now0)"
proof -
  have a: "fst (authenticate (holder now0) (world0 [json_reply 401 (JObject [])] [])) = False"
    by (simp add: authenticate_def authenticate_try_def requests_post_def auth_request_def
        world0_def json_reply_def Let_def)
  have n: "\<not> next_reply_is_object (world0 [json_reply 401 (JObject [])] [])"
    by (simp add: next_reply_is_object_def offered_access_token_def world0_def json_reply_def)
  have r: "fst (refresh_access_token (holder now0) (world0 [] [])) = False"
    by (simp add: refresh_access_token_def refresh_try_def requests_post_def refresh_request_def
        holder_def world0_def unreachable_def Let_def)
  have m: "\<not> next_reply_is_object (world0 [] [])"
    by (simp add: next_reply_is_object_def world0_def)
  have f: "token_fields (holder now0) = (JString ''tok0'', JString ''ref0'', Some now0)"
    by (simp add: token_fields_def holder_def)
  show ?thesis
    using a n r m f
      failed_token_request_keeps_fields [of "holder now0" "world0 [json_reply 401 (JObject [])] []",
        THEN conjunct1]
      failed_token_request_keeps_fields [of "holder now0" "world0 [] []", THEN conjunct2]
    by simp
qed

end
